theory Spec2Isabelle
  imports Complex_Main
begin

section \<open>Python library functions used by the worker\<close>

text \<open>
  \<^verbatim>\<open>str(n)\<close> of a Python int: decimal digits, most significant first, with a
  leading minus sign for a negative number.
\<close>

definition digit_char :: "nat \<Rightarrow> char" where
  "digit_char d = ''0123456789'' ! (d mod 10)"

fun str_nat :: "nat \<Rightarrow> string" where
  "str_nat n = (if n < 10 then [digit_char n] else str_nat (n div 10) @ [digit_char (n mod 10)])"

declare str_nat.simps [simp del]

definition str_int :: "int \<Rightarrow> string" where
  "str_int i = (if i < 0 then CHR ''-'' # str_nat (nat (- i)) else str_nat (nat i))"

text \<open>
  The format specification \<^verbatim>\<open>{n:06d}\<close>: the decimal digits padded with zeros on the
  left to a total width of six, the sign (if any) in front of the padding.
\<close>

definition format_06d :: "int \<Rightarrow> string" where
  "format_06d i =
     (if i < 0
      then CHR ''-'' # replicate (5 - length (str_nat (nat (- i)))) CHR ''0'' @ str_nat (nat (- i))
      else replicate (6 - length (str_nat (nat i))) CHR ''0'' @ str_nat (nat i))"

text \<open>
  \<^verbatim>\<open>os.path.join\<close> of posixpath: an absolute component discards what came before
  it, otherwise components are joined with a single slash.
\<close>

definition startswith_sep :: "string \<Rightarrow> bool" where
  "startswith_sep b = (case b of [] \<Rightarrow> False | c # _ \<Rightarrow> c = CHR ''/'')"

definition endswith_sep :: "string \<Rightarrow> bool" where
  "endswith_sep p = (case rev p of [] \<Rightarrow> False | c # _ \<Rightarrow> c = CHR ''/'')"

definition join_step :: "string \<Rightarrow> string \<Rightarrow> string" where
  "join_step path b =
     (if startswith_sep b then b
      else if path = [] \<or> endswith_sep path then path @ b
      else path @ ''/'' @ b)"

definition path_join :: "string \<Rightarrow> string list \<Rightarrow> string" where
  "path_join a ps = foldl join_step a ps"

text \<open>
  Python floats are IEEE 754 doubles: a significand of 53 bits, rounding to nearest with
  ties to even, the largest finite value below \<open>2 ^ 1024\<close>, and below \<open>2 ^ - 1022\<close> a
  fixed spacing of \<open>2 ^ - 1074\<close>. A finite double is kept as the real number it denotes.
  \<open>bit_length\<close> is \<^verbatim>\<open>int.bit_length\<close>; \<open>round_half_even_div a b\<close> is the quotient
  \<open>a / b\<close> of two naturals rounded to the nearest natural, a tie going to the even one.
\<close>

fun bit_length :: "nat \<Rightarrow> nat" where
  "bit_length n = (if n = 0 then 0 else Suc (bit_length (n div 2)))"

declare bit_length.simps [simp del]

definition round_half_even_div :: "nat \<Rightarrow> nat \<Rightarrow> nat" where
  "round_half_even_div a b =
     (let f = a div b; r = a mod b
      in if 2 * r < b then f
         else if b < 2 * r then f + 1
         else if even f then f else f + 1)"

text \<open>
  An exception is its class and the text \<^verbatim>\<open>str(e)\<close> that the handlers format into
  their messages.
\<close>

datatype exc_class =
  KeyError | ZeroDivisionError | OverflowError | OSError | TypeError | JSONDecodeError
  | UnicodeDecodeError

datatype py_exception = Raise exc_class string

text \<open>
  The conversion of a non-negative int to a float, as the division \<^verbatim>\<open>1.0 / fps\<close> does it
  to its int operand: an int of at most 53 bits is kept, a longer one is rounded to 53
  significant bits, and the conversion raises \<^verbatim>\<open>OverflowError\<close> when the rounded value
  reaches \<open>2 ^ 1024\<close>. The result is the integer that the double denotes.
\<close>

definition float_of_nat :: "nat \<Rightarrow> py_exception + nat" where
  "float_of_nat n =
     (let k = bit_length n in
      if k \<le> 53 then Inr n
      else
        let shift = k - 53;
            rounded = round_half_even_div n (2 ^ shift) * 2 ^ shift
        in if 2 ^ 1024 \<le> rounded
           then Inl (Raise OverflowError ''int too large to convert to float'')
           else Inr rounded)"

text \<open>
  The double \<^verbatim>\<open>1.0 / x\<close> for a double \<open>x\<close> that denotes the integer \<open>m \<ge> 1\<close>. With
  \<open>c = bit_length (m - 1)\<close> the quotient lies in the binade from \<open>2 ^ - c\<close>, where doubles
  are spaced \<open>2 ^ - (52 + c)\<close> apart, or \<open>2 ^ - 1074\<close> apart once \<open>c\<close> exceeds 1022; the
  quotient is rounded to that grid.
\<close>

definition reciprocal_double :: "nat \<Rightarrow> real" where
  "reciprocal_double m =
     (let c = bit_length (m - 1);
          s = 52 + min c 1022
      in real (round_half_even_div (2 ^ s) m) / 2 ^ s)"

text \<open>
  The expression \<^verbatim>\<open>1.0 / fps\<close> for an int \<^verbatim>\<open>fps\<close>: the operand is converted first, a zero
  divisor raises \<^verbatim>\<open>ZeroDivisionError\<close>, and the sign of the quotient is that of \<^verbatim>\<open>fps\<close>.
\<close>

definition float_reciprocal :: "int \<Rightarrow> py_exception + real" where
  "float_reciprocal n =
     (case float_of_nat (nat \<bar>n\<bar>) of
        Inl e \<Rightarrow> Inl e
      | Inr m \<Rightarrow>
          if m = 0 then Inl (Raise ZeroDivisionError ''float division by zero'')
          else Inr ((if n < 0 then - 1 else 1) * reciprocal_double m))"

section \<open>The data model (src/models.py)\<close>

record VideoCompilationJob =
  request_id :: string
  total_frames :: int
  output_format :: string
  fps :: int
  quality :: string

record FrameInfo =
  frame_number :: int
  frame_url :: string
  local_path :: "string option"

text \<open>
  \<^verbatim>\<open>CompilationResult\<close>. The optional fields default to \<^verbatim>\<open>None\<close>; the times are
  seconds. The field \<^verbatim>\<open>request_id\<close> is called \<open>result_request_id\<close> here, since the job
  record already has a field of that name.
\<close>

record CompilationResult =
  result_request_id :: string
  success :: bool
  video_url :: "string option"
  error_message :: "string option"
  compilation_time :: "real option"
  completed_at :: "real option"

definition CompilationResult_init ::
  "string \<Rightarrow> bool \<Rightarrow> string option \<Rightarrow> string option \<Rightarrow> real option \<Rightarrow> CompilationResult" where
  "CompilationResult_init rid ok url err t =
     \<lparr>result_request_id = rid, success = ok, video_url = url, error_message = err,
      compilation_time = t, completed_at = None\<rparr>"

section \<open>The encoder invoker (src/services/video_compiler.py)\<close>

text \<open>
  One row of \<^verbatim>\<open>quality_presets\<close>: a dict with the keys \<^verbatim>\<open>crf\<close>, \<^verbatim>\<open>preset\<close> and
  \<^verbatim>\<open>scale\<close>. The command builder tests \<^verbatim>\<open>"scale" in quality_settings\<close>, so the
  presence of that key is part of the value: \<open>None\<close> is a dict without it.
\<close>

record quality_settings =
  crf :: int
  preset :: string
  scale :: "string option"

text \<open>
  The table is keyed by the members of the string enum \<^verbatim>\<open>VideoQuality\<close>, which hash
  and compare as their values, so a lookup with a plain string finds them.
\<close>

definition quality_presets :: "(string \<times> quality_settings) list" where
  "quality_presets =
     [(''low'', \<lparr>crf = 28, preset = ''fast'', scale = Some ''720:480''\<rparr>),
      (''medium'', \<lparr>crf = 23, preset = ''medium'', scale = Some ''1280:720''\<rparr>),
      (''high'', \<lparr>crf = 18, preset = ''slow'', scale = Some ''1920:1080''\<rparr>),
      (''ultra'', \<lparr>crf = 15, preset = ''veryslow'', scale = Some ''1920:1080''\<rparr>)]"

fun str_exc :: "py_exception \<Rightarrow> string" where
  "str_exc (Raise c msg) = msg"

text \<open>
  Line 75: \<^verbatim>\<open>self.quality_presets.get(quality, self.quality_presets[VideoQuality.MEDIUM])\<close>.
  The default is an indexing expression, evaluated before \<^verbatim>\<open>get\<close> is called; indexing a
  missing key raises \<^verbatim>\<open>KeyError\<close>.
\<close>

definition dict_getitem :: "(string \<times> 'v) list \<Rightarrow> string \<Rightarrow> py_exception + 'v" where
  "dict_getitem d k =
     (case map_of d k of None \<Rightarrow> Inl (Raise KeyError (CHR 0x27 # k @ [CHR 0x27])) | Some v \<Rightarrow> Inr v)"

definition dict_get :: "(string \<times> 'v) list \<Rightarrow> string \<Rightarrow> 'v \<Rightarrow> 'v" where
  "dict_get d k dflt = (case map_of d k of None \<Rightarrow> dflt | Some v \<Rightarrow> v)"

definition get_quality_settings :: "string \<Rightarrow> py_exception + quality_settings" where
  "get_quality_settings q =
     (case dict_getitem quality_presets ''medium'' of
        Inl e \<Rightarrow> Inl e
      | Inr dflt \<Rightarrow> Inr (dict_get quality_presets q dflt))"

record VideoCompiler =
  ffmpeg_binary :: string
  temp_dir :: string

text \<open>\<^verbatim>\<open>_build_ffmpeg_command\<close> (lines 169 to 198).\<close>

definition build_ffmpeg_command ::
  "VideoCompiler \<Rightarrow> string \<Rightarrow> string \<Rightarrow> int \<Rightarrow> quality_settings \<Rightarrow> string \<Rightarrow> string list" where
  "build_ffmpeg_command self input_path output_path fps_arg qs fmt =
     (let cmd = [ffmpeg_binary self,
                 ''-f'', ''concat'',
                 ''-safe'', ''0'',
                 ''-i'', input_path,
                 ''-c:v'', ''libx264'',
                 ''-preset'', preset qs,
                 ''-crf'', str_int (crf qs),
                 ''-pix_fmt'', ''yuv420p'',
                 ''-r'', str_int fps_arg,
                 ''-movflags'', ''+faststart'',
                 ''-y'',
                 output_path]
      in case scale qs of
           Some s \<Rightarrow> cmd @ [''-vf'', ''scale='' @ s]
         | None \<Rightarrow> cmd)"

text \<open>
  \<^verbatim>\<open>_create_frame_list_file\<close> (lines 154 to 167). The manifest is kept as the sequence
  of \<^verbatim>\<open>f.write\<close> calls: the header line, a \<^verbatim>\<open>file '<path>'\<close> line, or a
  \<^verbatim>\<open>duration <d>\<close> line. The duration is the float \<^verbatim>\<open>1.0 / fps\<close>, kept as the
  double that is written (its printed form denotes it uniquely).
\<close>

datatype manifest_write = WriteHeader | WriteFileLine string | WriteDuration real

text \<open>
  The loop over the frames: a frame is listed when its \<^verbatim>\<open>local_path\<close> is truthy (neither
  \<^verbatim>\<open>None\<close> nor the empty string) and \<^verbatim>\<open>os.path.exists\<close> holds of it.
\<close>

fun write_frame_entries :: "(string \<Rightarrow> bool) \<Rightarrow> real \<Rightarrow> FrameInfo list \<Rightarrow> manifest_write list" where
  "write_frame_entries ex d [] = []"
| "write_frame_entries ex d (f # fs) =
     (case local_path f of
        None \<Rightarrow> []
      | Some p \<Rightarrow> if p \<noteq> [] \<and> ex p then [WriteFileLine p, WriteDuration d] else [])
     @ write_frame_entries ex d fs"

text \<open>
  After the loop: \<^verbatim>\<open>if frames and frames[-1].local_path\<close> writes the last frame's path
  once more. This test does not ask whether the file exists.
\<close>

definition write_last_frame :: "FrameInfo list \<Rightarrow> manifest_write list" where
  "write_last_frame frames =
     (case frames of
        [] \<Rightarrow> []
      | _ # _ \<Rightarrow>
          (case local_path (last frames) of
             None \<Rightarrow> []
           | Some p \<Rightarrow> if p \<noteq> [] then [WriteFileLine p] else []))"

text \<open>
  What the world answers during one call of \<^verbatim>\<open>compile_video\<close>: the two readings of
  \<^verbatim>\<open>time.time()\<close> (no path reads the clock more than twice), the exception that
  \<^verbatim>\<open>os.makedirs\<close>, \<^verbatim>\<open>open\<close> or \<^verbatim>\<open>create_subprocess_exec\<close> raises (if any),
  \<^verbatim>\<open>os.path.exists\<close> at the time the manifest is written, the outcome of waiting for the
  encoder, and the size of a file once the encoder has exited (\<open>None\<close>: no such file).
  The captured \<^verbatim>\<open>stderr\<close> is kept as its decoded text.
\<close>

datatype communicate_outcome = Exited int string | TimedOut

record compile_env =
  time_start :: real
  time_later :: real
  makedirs_error :: "py_exception option"
  open_error :: "py_exception option"
  file_exists :: "string \<Rightarrow> bool"
  spawn_error :: "py_exception option"
  communicate :: communicate_outcome
  size_after :: "string \<Rightarrow> int option"

text \<open>The effects of the worker on the world, in the order they happen.\<close>

datatype event =
    Makedirs string
  | WriteManifest string "manifest_write list"
  | Spawn "string list" string
  | Kill
  | UpdateVideoStatus string string "string option" "string option" "real option"
  | FPutObject string string string string
  | CleanupWorkDirectory string
  | CleanupFrames string string

definition create_frame_list_file ::
  "compile_env \<Rightarrow> FrameInfo list \<Rightarrow> string \<Rightarrow> int \<Rightarrow> py_exception + event" where
  "create_frame_list_file env frames list_path fps_arg =
     (case float_reciprocal fps_arg of
        Inl e \<Rightarrow> Inl e
      | Inr frame_duration \<Rightarrow>
          (case open_error env of
             Some e \<Rightarrow> Inl e
           | None \<Rightarrow>
               Inr (WriteManifest list_path
                      (WriteHeader # write_frame_entries (file_exists env) frame_duration frames
                         @ write_last_frame frames))))"

text \<open>
  The body of the outer \<^verbatim>\<open>try\<close> of \<^verbatim>\<open>compile_video\<close> (lines 53 to 141): the effects
  so far, and either the result returned or the exception that leaves the block.
\<close>

definition compile_video_try ::
  "VideoCompiler \<Rightarrow> compile_env \<Rightarrow> string \<Rightarrow> FrameInfo list \<Rightarrow> int \<Rightarrow> string \<Rightarrow> string \<Rightarrow> int
     \<Rightarrow> event list \<times> (py_exception + CompilationResult)" where
  "compile_video_try self env rid frames fps_arg q fmt max_compilation_time =
     (if frames = [] then
        ([], Inr (CompilationResult_init rid False None
                    (Some ''No frames provided for compilation'') None))
      else
        let sorted_frames = sort_key frame_number frames;
            work_dir = path_join (temp_dir self) [rid];
            output_path = path_join work_dir [''output.'' @ fmt]
        in
        (case makedirs_error env of
           Some e \<Rightarrow> ([], Inl e)
         | None \<Rightarrow>
            let frame_list_path = path_join work_dir [''frame_list.txt''] in
            (case create_frame_list_file env sorted_frames frame_list_path fps_arg of
               Inl e \<Rightarrow> ([Makedirs work_dir], Inl e)
             | Inr written \<Rightarrow>
                (case get_quality_settings q of
                   Inl e \<Rightarrow> ([Makedirs work_dir, written], Inl e)
                 | Inr qs \<Rightarrow>
                    let cmd = build_ffmpeg_command self frame_list_path output_path fps_arg qs fmt in
                    (case spawn_error env of
                       Some e \<Rightarrow> ([Makedirs work_dir, written], Inl e)
                     | None \<Rightarrow>
                        (case communicate env of
                           TimedOut \<Rightarrow>
                             ([Makedirs work_dir, written, Spawn cmd work_dir, Kill],
                              Inr (CompilationResult_init rid False None
                                     (Some (''Video compilation timed out after ''
                                            @ str_int max_compilation_time @ '' seconds''))
                                     None))
                         | Exited returncode stderr \<Rightarrow>
                             let compilation_time_v = time_later env - time_start env in
                             ([Makedirs work_dir, written, Spawn cmd work_dir],
                              Inr (if returncode = 0 then
                                     (if (case size_after env output_path of
                                            None \<Rightarrow> False
                                          | Some n \<Rightarrow> n > 1024)
                                      then CompilationResult_init rid True (Some output_path) None
                                             (Some compilation_time_v)
                                      else CompilationResult_init rid False None
                                             (Some ''FFmpeg completed but output file is invalid or too small'')
                                             (Some compilation_time_v))
                                   else
                                     let error_msg =
                                           (if stderr \<noteq> [] then stderr else ''Unknown FFmpeg error'')
                                     in CompilationResult_init rid False None
                                          (Some (''FFmpeg failed with code '' @ str_int returncode
                                                 @ '': '' @ error_msg))
                                          (Some compilation_time_v)))))))))"

text \<open>
  \<^verbatim>\<open>compile_video\<close> (lines 40 to 152): the outer handler (lines 143 to 152) turns an
  exception into a failed result that carries the elapsed time.
\<close>

definition compile_video ::
  "VideoCompiler \<Rightarrow> compile_env \<Rightarrow> string \<Rightarrow> FrameInfo list \<Rightarrow> int \<Rightarrow> string \<Rightarrow> string \<Rightarrow> int
     \<Rightarrow> CompilationResult \<times> event list" where
  "compile_video self env rid frames fps_arg q fmt max_compilation_time =
     (case compile_video_try self env rid frames fps_arg q fmt max_compilation_time of
        (evs, Inr r) \<Rightarrow> (r, evs)
      | (evs, Inl e) \<Rightarrow>
          (CompilationResult_init rid False None
             (Some (''Compilation error: '' @ str_exc e))
             (Some (time_later env - time_start env)), evs))"

section \<open>The frame retriever and the upload (src/services/storage_service.py)\<close>

record StorageService =
  frames_bucket :: string
  videos_bucket :: string

text \<open>
  \<^verbatim>\<open>download_frame\<close> (lines 39 to 67) catches every exception and returns a bool, so
  for the retriever it is an answer of the object store per frame number. A task of the
  batch ends in a \<^verbatim>\<open>FrameInfo\<close>, in \<^verbatim>\<open>None\<close>, or in an exception that
  \<^verbatim>\<open>gather(..., return_exceptions=True)\<close> hands back as a value.
\<close>

datatype fetch_outcome = Fetched | NotFetched | TaskRaised py_exception

datatype task_result = ResultFrame FrameInfo | ResultNone | ResultException py_exception

text \<open>\<^verbatim>\<open>download_single_frame\<close> (lines 77 to 87), the admission gate left out.\<close>

definition download_single_frame ::
  "(int \<Rightarrow> fetch_outcome) \<Rightarrow> string \<Rightarrow> string \<Rightarrow> int \<Rightarrow> task_result" where
  "download_single_frame download_frame rid local_frame_dir frame_num =
     (let lp = path_join local_frame_dir [''frame_'' @ format_06d frame_num @ ''.jpg''] in
      case download_frame frame_num of
        Fetched \<Rightarrow>
          ResultFrame \<lparr>frame_number = frame_num,
                       frame_url = rid @ ''/frame_'' @ format_06d frame_num @ ''.jpg'',
                       local_path = Some lp\<rparr>
      | NotFetched \<Rightarrow> ResultNone
      | TaskRaised e \<Rightarrow> ResultException e)"

text \<open>
  The tasks run concurrently and finish in some order: \<open>order\<close> lists the frame numbers
  of the tasks in the order in which they complete, and each completed task leaves its
  result in its own future. \<^verbatim>\<open>asyncio.gather\<close> returns once every child is done, with
  the results in the order of the children it was given, here
  \<^verbatim>\<open>range(1, total_frames + 1)\<close>. A schedule in which some child never completes makes
  the \<^verbatim>\<open>await\<close> never return: that is \<open>None\<close>.
\<close>

definition run_tasks :: "(int \<Rightarrow> 'r) \<Rightarrow> int list \<Rightarrow> (int \<rightharpoonup> 'r)" where
  "run_tasks task order = foldl (\<lambda>futures i. futures(i \<mapsto> task i)) Map.empty order"

definition gather :: "(int \<Rightarrow> 'r) \<Rightarrow> int list \<Rightarrow> int list \<Rightarrow> 'r list option" where
  "gather task children order = those (map (run_tasks task order) children)"

text \<open>The loop of lines 94 to 98: only \<^verbatim>\<open>FrameInfo\<close> results are appended.\<close>

fun filter_successful :: "task_result list \<Rightarrow> FrameInfo list \<Rightarrow> FrameInfo list" where
  "filter_successful [] frames = frames"
| "filter_successful (ResultFrame f # rs) frames = filter_successful rs (frames @ [f])"
| "filter_successful (ResultNone # rs) frames = filter_successful rs frames"
| "filter_successful (ResultException e # rs) frames = filter_successful rs frames"

text \<open>The frames among the results of the tasks, in their order.\<close>

fun frames_of :: "task_result \<Rightarrow> FrameInfo list" where
  "frames_of (ResultFrame f) = [f]"
| "frames_of _ = []"

text \<open>\<^verbatim>\<open>download_all_frames\<close> (lines 69 to 101); Python's \<^verbatim>\<open>sorted\<close> is stable.\<close>

definition download_all_frames ::
  "(int \<Rightarrow> fetch_outcome) \<Rightarrow> int list \<Rightarrow> string \<Rightarrow> int \<Rightarrow> string \<Rightarrow> FrameInfo list option" where
  "download_all_frames download_frame order rid total_frames_arg temp =
     (let local_frame_dir = path_join temp [rid, ''frames''] in
      case gather (download_single_frame download_frame rid local_frame_dir)
             [1..total_frames_arg] order of
        None \<Rightarrow> None
      | Some results \<Rightarrow> Some (sort_key frame_number (filter_successful results [])))"

text \<open>
  \<^verbatim>\<open>upload_video\<close> (lines 103 to 129): \<open>fput_error\<close> is the exception that
  \<^verbatim>\<open>fput_object\<close> raises, if any; both handlers return \<^verbatim>\<open>None\<close>. The event records the
  bucket, the key, the local file and the content type of a completed upload.
\<close>

definition upload_video ::
  "StorageService \<Rightarrow> py_exception option \<Rightarrow> string \<Rightarrow> string \<Rightarrow> string option \<times> event list" where
  "upload_video self fput_error rid video_path =
     (let video_filename = rid @ ''/compiled_video.mp4'' in
      case fput_error of
        Some e \<Rightarrow> (None, [])
      | None \<Rightarrow>
          (Some video_filename,
           [FPutObject (videos_bucket self) video_filename video_path ''video/mp4'']))"

section \<open>The job orchestrator (main.py)\<close>

record WorkerStats =
  active_jobs :: int
  completed_jobs :: int
  failed_jobs :: int

text \<open>
  The worker: its two services, the two settings the job handler reads
  (\<^verbatim>\<open>settings.temp_dir\<close>, \<^verbatim>\<open>settings.max_compilation_time\<close>) and its counters.
\<close>

record VideoProcessorWorker =
  video_compiler :: VideoCompiler
  storage_service :: StorageService
  settings_temp_dir :: string
  settings_max_compilation_time :: int
  stats :: WorkerStats

text \<open>What the collaborators answer during one job.\<close>

record job_env =
  download_frame :: "int \<Rightarrow> fetch_outcome"
  completion_order :: "int list"
  encoder :: compile_env
  fput_error :: "py_exception option"

text \<open>
  The \<^verbatim>\<open>finally\<close> block (lines 162 to 173): the two cleanup calls, which catch their own
  exceptions.
\<close>

definition cleanup :: "VideoProcessorWorker \<Rightarrow> string \<Rightarrow> event list" where
  "cleanup self rid =
     [CleanupWorkDirectory rid,
      CleanupFrames rid (path_join (settings_temp_dir self) [rid, ''frames''])]"

definition truthy :: "string option \<Rightarrow> bool" where
  "truthy v = (case v of None \<Rightarrow> False | Some s \<Rightarrow> s \<noteq> [])"

text \<open>
  \<^verbatim>\<open>process_video_compilation_job\<close> (lines 73 to 173): the value returned to the queue
  gateway, the effects in order, and the counters afterwards; \<open>None\<close> when the retrieval
  never returns. \<^verbatim>\<open>update_video_status\<close> catches every exception and its return value
  is ignored, so it is an effect only. None of the calls in the \<^verbatim>\<open>try\<close> block raises
  on a job whose fields have their declared types (each callee catches its own
  exceptions), so the handler of lines 152 to 160 has no branch here. The test
  \<^verbatim>\<open>result.success and result.video_url\<close> of line 112 holds when the result is a success
  and its \<^verbatim>\<open>video_url\<close> is neither \<^verbatim>\<open>None\<close> nor empty.
\<close>

definition process_video_compilation_job ::
  "VideoProcessorWorker \<Rightarrow> job_env \<Rightarrow> VideoCompilationJob
     \<Rightarrow> (bool \<times> event list \<times> WorkerStats) option" where
  "process_video_compilation_job self env job =
     (let rid = request_id job;
          st = stats self;
          processing = [UpdateVideoStatus rid ''processing'' None None None]
      in
      case download_all_frames (download_frame env) (completion_order env) rid
             (total_frames job) (settings_temp_dir self) of
        None \<Rightarrow> None
      | Some frames \<Rightarrow>
          if int (length frames) \<noteq> total_frames job then
            let error_msg = ''Downloaded '' @ str_int (int (length frames)) @ ''/''
                            @ str_int (total_frames job) @ '' frames''
            in Some (False,
                     processing @ [UpdateVideoStatus rid ''failed'' None (Some error_msg) None]
                       @ cleanup self rid,
                     st\<lparr>failed_jobs := failed_jobs st + 1\<rparr>)
          else
            (case compile_video (video_compiler self) (encoder env) rid frames (fps job)
                    (quality job) (output_format job) (settings_max_compilation_time self) of
               (result, compile_events) \<Rightarrow>
                 let compilation_failed =
                       Some (False,
                             processing @ compile_events
                               @ [UpdateVideoStatus rid ''failed'' None (error_message result)
                                    (compilation_time result)]
                               @ cleanup self rid,
                             st\<lparr>failed_jobs := failed_jobs st + 1\<rparr>)
                 in
                 (case video_url result of
                    None \<Rightarrow> compilation_failed
                  | Some url \<Rightarrow>
                      if success result \<and> url \<noteq> [] then
                        (case upload_video (storage_service self) (fput_error env) rid url of
                           (video_filename, upload_events) \<Rightarrow>
                             if truthy video_filename then
                               Some (True,
                                     processing @ compile_events @ upload_events
                                       @ [UpdateVideoStatus rid ''completed'' video_filename None
                                            (compilation_time result)]
                                       @ cleanup self rid,
                                     st\<lparr>completed_jobs := completed_jobs st + 1\<rparr>)
                             else
                               Some (False,
                                     processing @ compile_events @ upload_events
                                       @ [UpdateVideoStatus rid ''failed'' None
                                            (Some ''Failed to upload compiled video'')
                                            (compilation_time result)]
                                       @ cleanup self rid,
                                     st\<lparr>failed_jobs := failed_jobs st + 1\<rparr>))
                      else compilation_failed)))"

text \<open>Two views of the effects of a job: its uploads and its status calls.\<close>

fun is_upload :: "event \<Rightarrow> bool" where
  "is_upload (FPutObject b k p c) = True"
| "is_upload _ = False"

fun is_status_update :: "event \<Rightarrow> bool" where
  "is_status_update (UpdateVideoStatus r s u e t) = True"
| "is_status_update _ = False"

section \<open>The queue gateway (src/services/queue_consumer.py)\<close>

text \<open>
  A message body is bytes. \<^verbatim>\<open>body.decode('utf-8')\<close> and \<^verbatim>\<open>json.loads\<close> are library
  code: a body is taken as what the two make of it, a \<^verbatim>\<open>UnicodeDecodeError\<close>, a
  \<^verbatim>\<open>JSONDecodeError\<close>, or the JSON value it holds. An object is kept as the items of
  the dict that \<^verbatim>\<open>json.loads\<close> returns (its keys are distinct).
\<close>

datatype json =
    JNull
  | JBool bool
  | JInt int
  | JFloat real
  | JStr string
  | JArr "json list"
  | JObj "(string \<times> json) list"

datatype message_body = NotUtf8 | NotJson | Json json

text \<open>
  \<^verbatim>\<open>VideoCompilationJob(**job_data)\<close>: the dataclass checks the names of the keyword
  arguments and that the two fields without a default are given; it does not check the
  types of the values, so the instance holds JSON values.
\<close>

record job_instance =
  given_request_id :: json
  given_total_frames :: json
  given_output_format :: json
  given_fps :: json
  given_quality :: json

definition job_fields :: "string list" where
  "job_fields = [''request_id'', ''total_frames'', ''output_format'', ''fps'', ''quality'']"

definition VideoCompilationJob_init :: "json \<Rightarrow> py_exception + job_instance" where
  "VideoCompilationJob_init job_data =
     (case job_data of
        JObj items \<Rightarrow>
          if list_ex (\<lambda>(k, v). k \<notin> set job_fields) items then
            Inl (Raise TypeError ''__init__() got an unexpected keyword argument'')
          else
            (case (map_of items ''request_id'', map_of items ''total_frames'') of
               (Some r, Some t) \<Rightarrow>
                 Inr \<lparr>given_request_id = r,
                      given_total_frames = t,
                      given_output_format = dict_get items ''output_format'' (JStr ''mp4''),
                      given_fps = dict_get items ''fps'' (JInt 30),
                      given_quality = dict_get items ''quality'' (JStr ''medium'')\<rparr>
             | _ \<Rightarrow> Inl (Raise TypeError ''__init__() missing required positional arguments''))
      | _ \<Rightarrow> Inl (Raise TypeError ''argument after ** must be a mapping''))"

text \<open>Lines 74 and 75: the two decoding steps of the handler.\<close>

definition decode_job :: "message_body \<Rightarrow> py_exception + job_instance" where
  "decode_job body =
     (case body of
        NotUtf8 \<Rightarrow> Inl (Raise UnicodeDecodeError ''invalid start byte'')
      | NotJson \<Rightarrow> Inl (Raise JSONDecodeError ''Expecting value'')
      | Json job_data \<Rightarrow> VideoCompilationJob_init job_data)"

text \<open>
  The calls on the channel, each with the delivery tag; the flag is \<^verbatim>\<open>requeue\<close>.
\<close>

datatype channel_action = BasicAck nat | BasicNack nat bool | BasicReject nat bool

datatype handler_outcome = Returned bool | HandlerRaised py_exception

text \<open>
  The two \<^verbatim>\<open>except\<close> clauses of \<^verbatim>\<open>_process_message\<close> (lines 104 to 110), in their
  order: \<^verbatim>\<open>json.JSONDecodeError\<close> first, then every other \<^verbatim>\<open>Exception\<close>.
\<close>

fun on_exception :: "nat \<Rightarrow> py_exception \<Rightarrow> channel_action list" where
  "on_exception tag (Raise c msg) =
     (if c = JSONDecodeError then [BasicReject tag False] else [BasicNack tag True])"

text \<open>
  \<^verbatim>\<open>_process_message\<close> (lines 70 to 110). The job handler is the one set by
  \<^verbatim>\<open>set_job_handler\<close>, if any; \<^verbatim>\<open>future.result()\<close> returns what it returned or raises
  what it raised.
\<close>

definition process_message ::
  "(job_instance \<Rightarrow> handler_outcome) option \<Rightarrow> nat \<Rightarrow> message_body \<Rightarrow> channel_action list" where
  "process_message job_handler delivery_tag body =
     (case decode_job body of
        Inl e \<Rightarrow> on_exception delivery_tag e
      | Inr job \<Rightarrow>
          (case job_handler of
             None \<Rightarrow> [BasicNack delivery_tag True]
           | Some handler \<Rightarrow>
               (case handler job of
                  HandlerRaised e \<Rightarrow> on_exception delivery_tag e
                | Returned result \<Rightarrow>
                    if result then [BasicAck delivery_tag]
                    else [BasicNack delivery_tag True])))"

text \<open>
  The orchestrator above is the handler for instances whose fields hold values of the
  declared types; \<open>job_of_instance\<close> reads such an instance as a job.
\<close>

definition job_of_instance :: "job_instance \<Rightarrow> VideoCompilationJob option" where
  "job_of_instance inst =
     (case (given_request_id inst, given_total_frames inst, given_output_format inst,
            given_fps inst, given_quality inst) of
        (JStr r, JInt t, JStr f, JInt p, JStr q) \<Rightarrow>
          Some \<lparr>request_id = r, total_frames = t, output_format = f, fps = p, quality = q\<rparr>
      | _ \<Rightarrow> None)"

text \<open>
  The gateway's handler is the orchestrator: run on the decoded instance it returns what
  the orchestrator returns for the job (and does not return when that does not).
\<close>

definition handler_returns ::
  "(job_instance \<Rightarrow> handler_outcome) \<Rightarrow> job_instance
     \<Rightarrow> (bool \<times> event list \<times> WorkerStats) option \<Rightarrow> bool" where
  "handler_returns handler inst outcome =
     (case outcome of None \<Rightarrow> False | Some (b, evs, st) \<Rightarrow> handler inst = Returned b)"

section \<open>Example inputs\<close>

text \<open>
  The worker with the default settings of src/config.py, and the answers of a world in
  which every step of the encoder invoker succeeds, for the job \<^verbatim>\<open>r1\<close>.
\<close>

definition default_compiler :: VideoCompiler where
  "default_compiler = \<lparr>ffmpeg_binary = ''ffmpeg'', temp_dir = ''/tmp/video_processing''\<rparr>"

definition default_worker :: VideoProcessorWorker where
  "default_worker =
     \<lparr>video_compiler = default_compiler,
      storage_service = \<lparr>frames_bucket = ''video-frames'', videos_bucket = ''compiled-videos''\<rparr>,
      settings_temp_dir = ''/tmp/video_processing'',
      settings_max_compilation_time = 300,
      stats = \<lparr>active_jobs = 0, completed_jobs = 0, failed_jobs = 0\<rparr>\<rparr>"

definition one_frame :: "FrameInfo list" where
  "one_frame =
     [\<lparr>frame_number = 1, frame_url = ''r1/frame_000001.jpg'',
       local_path = Some ''/tmp/video_processing/r1/frames/frame_000001.jpg''\<rparr>]"

definition encoder_run :: "communicate_outcome \<Rightarrow> int option \<Rightarrow> compile_env" where
  "encoder_run outcome output_size =
     \<lparr>time_start = 100, time_later = 105, makedirs_error = None, open_error = None,
      file_exists = (\<lambda>p. True), spawn_error = None, communicate = outcome,
      size_after = (\<lambda>p. output_size)\<rparr>"

text \<open>
  The job \<^verbatim>\<open>r2\<close> of five frames, of which the third cannot be fetched, with its message;
  and a job \<^verbatim>\<open>r1\<close> of three frames asking for a \<^verbatim>\<open>webm\<close> container, in a world where
  every step succeeds.
\<close>

definition all_but_third :: "int \<Rightarrow> fetch_outcome" where
  "all_but_third k = (if k = 3 then NotFetched else Fetched)"

definition job_r2 :: VideoCompilationJob where
  "job_r2 = \<lparr>request_id = ''r2'', total_frames = 5, output_format = ''mp4'', fps = 30,
            quality = ''medium''\<rparr>"

definition body_r2 :: message_body where
  "body_r2 = Json (JObj [(''request_id'', JStr ''r2''), (''total_frames'', JInt 5),
                         (''quality'', JStr ''medium'')])"

definition env_r2 :: job_env where
  "env_r2 = \<lparr>download_frame = all_but_third, completion_order = [3, 1, 5, 2, 4],
             encoder = encoder_run (Exited 0 []) (Some 4096), fput_error = None\<rparr>"

definition job_webm :: VideoCompilationJob where
  "job_webm = \<lparr>request_id = ''r1'', total_frames = 3, output_format = ''webm'', fps = 24,
              quality = ''high''\<rparr>"

definition env_all_good :: job_env where
  "env_all_good = \<lparr>download_frame = (\<lambda>k. Fetched), completion_order = [2, 3, 1],
                   encoder = encoder_run (Exited 0 []) (Some 4096), fput_error = None\<rparr>"

section \<open>Properties of the float division\<close>

text \<open>An int has its bit length many bits.\<close>

lemma bit_length_bounds:
  "0 < n \<Longrightarrow> 2 ^ (bit_length n - 1) \<le> n \<and> n < 2 ^ bit_length n"
proof (induction n rule: bit_length.induct)
  case (1 n)
  show ?case
  proof (cases "n div 2 = 0")
    case True
    with "1.prems" have "n = 1" by auto
    then show ?thesis by (simp add: bit_length.simps)
  next
    case False
    then have pos: "0 < n div 2" by simp
    from "1.prems" have n0: "n \<noteq> 0" by simp
    from "1.IH"[OF n0 pos]
    have lo: "2 ^ (bit_length (n div 2) - 1) \<le> n div 2"
      and hi: "n div 2 < 2 ^ bit_length (n div 2)" by auto
    have bl: "bit_length n = Suc (bit_length (n div 2))"
      using n0 by (subst bit_length.simps) simp
    have blpos: "0 < bit_length (n div 2)"
      using pos by (subst bit_length.simps) simp
    then have "2 ^ (bit_length n - 1) = 2 * 2 ^ (bit_length (n div 2) - 1)" for x :: nat
      unfolding bl by (cases "bit_length (n div 2)") simp_all
    moreover have "2 * (n div 2) \<le> n" by simp
    ultimately have "(2::nat) ^ (bit_length n - 1) \<le> n"
      using lo by (metis (no_types, lifting) le_trans mult_le_mono2)
    moreover have "n < 2 ^ bit_length n"
      unfolding bl using hi by simp
    ultimately show ?thesis by simp
  qed
qed

lemma round_half_even_div_ge: "a div b \<le> round_half_even_div a b"
  by (simp add: round_half_even_div_def Let_def)

lemma float_of_nat_overflow:
  assumes "2 ^ 1024 \<le> n"
  shows "float_of_nat n = Inl (Raise OverflowError ''int too large to convert to float'')"
proof -
  define k where "k = bit_length n"
  have "(0::nat) < 2 ^ 1024" by (rule zero_less_power) simp
  with assms have pos: "0 < n" by (rule less_le_trans[rotated])
  from bit_length_bounds[OF pos] have lo: "2 ^ (k - 1) \<le> n" and hi: "n < 2 ^ k"
    by (simp_all add: k_def)
  from assms hi have "(2::nat) ^ 1024 < 2 ^ k" by (rule le_less_trans)
  then have k: "1024 < k"
    by (rule power_less_imp_less_exp[of "2::nat", rotated]) simp
  define shift where "shift = k - 53"
  from k have ks: "k - 1 = 52 + shift" by (simp add: shift_def)
  have base: "(2::nat) ^ 52 * 2 ^ shift \<le> n"
    using lo unfolding ks power_add .
  have "(0::nat) < 2 ^ shift" by simp
  then have "(2::nat) ^ 52 \<le> n div 2 ^ shift"
    using base by (simp only: less_eq_div_iff_mult_less_eq)
  then have "(2::nat) ^ 52 \<le> round_half_even_div n (2 ^ shift)"
    using round_half_even_div_ge[of n "2 ^ shift"] by (rule order_trans)
  then have "(2::nat) ^ 52 * 2 ^ shift \<le> round_half_even_div n (2 ^ shift) * 2 ^ shift"
    by (rule mult_le_mono1)
  moreover have "(2::nat) ^ 1024 \<le> 2 ^ 52 * 2 ^ shift"
  proof -
    have "1024 \<le> 52 + shift" using k by (simp add: shift_def)
    then have "(2::nat) ^ 1024 \<le> 2 ^ (52 + shift)"
      by (rule power_increasing) simp
    then show ?thesis by (simp only: power_add)
  qed
  ultimately have big: "2 ^ 1024 \<le> round_half_even_div n (2 ^ shift) * 2 ^ shift"
    by (rule order_trans[rotated])
  from k have "\<not> k \<le> 53" by simp
  with big show ?thesis
    unfolding float_of_nat_def Let_def k_def[symmetric] shift_def[symmetric]
    by (simp only: if_False if_True)
qed

lemma float_reciprocal_overflow:
  assumes "2 ^ 1024 \<le> n"
  shows "float_reciprocal n = Inl (Raise OverflowError ''int too large to convert to float'')"
proof -
  have "(0::int) \<le> 2 ^ 1024" by (rule zero_le_power) simp
  with assms have "0 \<le> n" by (rule order_trans[rotated])
  then have eq: "int (nat \<bar>n\<bar>) = n" by simp
  have "int (2 ^ 1024) = 2 ^ 1024" by (simp only: of_nat_power of_nat_numeral)
  with assms eq have "int (2 ^ 1024) \<le> int (nat \<bar>n\<bar>)" by (simp only:)
  then have "(2::nat) ^ 1024 \<le> nat \<bar>n\<bar>"
    by (simp only: of_nat_le_iff)
  from float_of_nat_overflow[OF this] show ?thesis
    by (simp only: float_reciprocal_def sum.case)
qed





text \<open>An int from \<open>2 ^ 1024\<close> on is no float: no manifest is written.\<close>

lemma create_frame_list_file_overflow:
  assumes "2 ^ 1024 \<le> fps_arg"
  shows "create_frame_list_file env frames list_path fps_arg
           = Inl (Raise OverflowError ''int too large to convert to float'')"
  by (simp only: create_frame_list_file_def float_reciprocal_overflow[OF assms] sum.case)

text \<open>
  The division at 24 frames per second: the double nearest to one twenty-fourth, printed
  by Python as \<^verbatim>\<open>0.041666666666666664\<close>; and at zero.
\<close>

lemma bit_length_24: "bit_length 24 = 5" by code_simp
lemma bit_length_23: "bit_length 23 = 5" by code_simp

lemma float_of_nat_24: "float_of_nat 24 = Inr 24"
  by (simp add: float_of_nat_def bit_length_24)

lemma reciprocal_double_24: "reciprocal_double 24 = 6004799503160661 / 2 ^ 57"
  by (simp add: reciprocal_double_def bit_length_23 round_half_even_div_def Let_def)

lemma float_reciprocal_24: "float_reciprocal 24 = Inr (6004799503160661 / 2 ^ 57)"
  by (simp add: float_reciprocal_def float_of_nat_24 reciprocal_double_24)

lemma str_int_23_24: "str_int 23 = ''23''" "str_int 24 = ''24''"
  by (simp_all add: str_int_def str_nat.simps digit_char_def)

lemma float_reciprocal_0: "float_reciprocal 0 = Inl (Raise ZeroDivisionError ''float division by zero'')"
  by (simp add: float_reciprocal_def float_of_nat_def bit_length.simps)

section \<open>Properties of the encoder invoker\<close>

lemma quality_presets_rows:
  "map_of quality_presets q =
     (if q = ''low'' then Some \<lparr>crf = 28, preset = ''fast'', scale = Some ''720:480''\<rparr>
      else if q = ''medium'' then Some \<lparr>crf = 23, preset = ''medium'', scale = Some ''1280:720''\<rparr>
      else if q = ''high'' then Some \<lparr>crf = 18, preset = ''slow'', scale = Some ''1920:1080''\<rparr>
      else if q = ''ultra'' then Some \<lparr>crf = 15, preset = ''veryslow'', scale = Some ''1920:1080''\<rparr>
      else None)"
  by (simp add: quality_presets_def)

lemma get_quality_settings_eq:
  "get_quality_settings q =
     Inr (if q = ''low'' then \<lparr>crf = 28, preset = ''fast'', scale = Some ''720:480''\<rparr>
          else if q = ''high'' then \<lparr>crf = 18, preset = ''slow'', scale = Some ''1920:1080''\<rparr>
          else if q = ''ultra'' then \<lparr>crf = 15, preset = ''veryslow'', scale = Some ''1920:1080''\<rparr>
          else \<lparr>crf = 23, preset = ''medium'', scale = Some ''1280:720''\<rparr>)"
  by (simp add: get_quality_settings_def dict_getitem_def dict_get_def quality_presets_rows)

lemma unknown_tag_as_medium:
  assumes "q \<notin> {''low'', ''medium'', ''high'', ''ultra''}"
  shows "get_quality_settings q = get_quality_settings ''medium''"
  using assms by (simp add: get_quality_settings_eq)

lemma compile_video_quality_cong:
  assumes "get_quality_settings q = get_quality_settings q'"
  shows "compile_video self env rid frames fps_arg q fmt t
       = compile_video self env rid frames fps_arg q' fmt t"
  unfolding compile_video_def compile_video_try_def using assms by presburger

lemma snd_compile_video:
  "snd (compile_video self env rid frames fps_arg q fmt t)
     = fst (compile_video_try self env rid frames fps_arg q fmt t)"
  by (simp add: compile_video_def split: prod.splits sum.splits)

text \<open>The encoder is started only after every earlier step has gone through.\<close>

lemma spawn_in_try:
  assumes "Spawn cmd wd \<in> set (fst (compile_video_try self env rid frames fps_arg q fmt t))"
  shows "frames \<noteq> [] \<and> makedirs_error env = None \<and> spawn_error env = None
         \<and> (\<exists>w. create_frame_list_file env (sort_key frame_number frames)
                   (path_join (path_join (temp_dir self) [rid]) [''frame_list.txt'']) fps_arg = Inr w)
         \<and> (\<exists>qs. get_quality_settings q = Inr qs)"
  using assms
  by (auto simp: compile_video_try_def Let_def create_frame_list_file_def
      split: if_splits option.splits sum.splits communicate_outcome.splits)

text \<open>The result of a run whose encoder exits, by return code and output size.\<close>

lemma compile_video_exited:
  assumes "frames \<noteq> []" "makedirs_error env = None" "spawn_error env = None"
    and "create_frame_list_file env (sort_key frame_number frames)
           (path_join (path_join (temp_dir self) [rid]) [''frame_list.txt'']) fps_arg = Inr w"
    and "get_quality_settings q = Inr qs"
    and "communicate env = Exited rc err"
  shows "fst (compile_video self env rid frames fps_arg q fmt t) =
     (let elapsed = Some (time_later env - time_start env);
          output_path = path_join (path_join (temp_dir self) [rid]) [''output.'' @ fmt]
      in if rc = 0 then
           (if (case size_after env output_path of None \<Rightarrow> False | Some n \<Rightarrow> n > 1024)
            then CompilationResult_init rid True (Some output_path) None elapsed
            else CompilationResult_init rid False None
                   (Some ''FFmpeg completed but output file is invalid or too small'') elapsed)
         else CompilationResult_init rid False None
                (Some (''FFmpeg failed with code '' @ str_int rc @ '': ''
                       @ (if err \<noteq> [] then err else ''Unknown FFmpeg error''))) elapsed)"
  using assms by (simp add: compile_video_def compile_video_try_def Let_def)

text \<open>The manifest of a run whose float division and \<^verbatim>\<open>open\<close> succeed.\<close>

lemma create_frame_list_file_written:
  assumes "float_reciprocal fps_arg = Inr d" and "open_error env = None"
  shows "create_frame_list_file env frames list_path fps_arg =
           Inr (WriteManifest list_path
                 (WriteHeader # write_frame_entries (file_exists env) d frames
                    @ write_last_frame frames))"
  using assms by (simp add: create_frame_list_file_def)

text \<open>A run in which every step before the encoder succeeds starts the encoder.\<close>

lemma compile_video_spawns:
  assumes "frames \<noteq> []" and "makedirs_error env = None" and "open_error env = None"
    and "float_reciprocal fps_arg = Inr d" and "spawn_error env = None"
    and "get_quality_settings q = Inr qs"
  shows "Spawn (build_ffmpeg_command self
                  (path_join (path_join (temp_dir self) [rid]) [''frame_list.txt''])
                  (path_join (path_join (temp_dir self) [rid]) [''output.'' @ fmt])
                  fps_arg qs fmt)
               (path_join (temp_dir self) [rid])
           \<in> set (snd (compile_video self env rid frames fps_arg q fmt t))"
  using assms
  by (simp add: snd_compile_video compile_video_try_def Let_def
      create_frame_list_file_written[OF assms(4,3)] split: communicate_outcome.splits)

lemmas path_simps = path_join_def join_step_def startswith_sep_def endswith_sep_def

lemmas example_defs = default_compiler_def default_worker_def one_frame_def encoder_run_def

text \<open>
  C5. In every run of \<^verbatim>\<open>compile_video\<close> in which the encoder was started and exited
  with code zero, the result is a success exactly when the output file exists and its
  size is greater than 1024 bytes; when the file is absent or has at most 1024 bytes, the
  result is a failure with the message of line 119, despite the zero exit code.
\<close>

theorem zero_exit_needs_plausible_output:
  assumes "communicate env = Exited 0 err"
    and "Spawn cmd wd \<in> set (snd (compile_video self env rid frames fps_arg q fmt t))"
  shows "(success (fst (compile_video self env rid frames fps_arg q fmt t)) \<longleftrightarrow>
           (\<exists>n. size_after env (path_join (path_join (temp_dir self) [rid]) [''output.'' @ fmt])
                  = Some n \<and> n > 1024))
       \<and> (\<not> success (fst (compile_video self env rid frames fps_arg q fmt t)) \<longrightarrow>
           error_message (fst (compile_video self env rid frames fps_arg q fmt t))
             = Some ''FFmpeg completed but output file is invalid or too small'')"
proof -
  from assms(2)
  have "Spawn cmd wd \<in> set (fst (compile_video_try self env rid frames fps_arg q fmt t))"
    by (simp add: snd_compile_video)
  from spawn_in_try[OF this] obtain w qs where
    "frames \<noteq> []" "makedirs_error env = None" "spawn_error env = None"
    "create_frame_list_file env (sort_key frame_number frames)
           (path_join (path_join (temp_dir self) [rid]) [''frame_list.txt'']) fps_arg = Inr w"
    "get_quality_settings q = Inr qs"
    by blast
  from compile_video_exited[OF this assms(1)] show ?thesis
    by (simp add: Let_def CompilationResult_init_def split: option.splits)
qed

text \<open>
  The boundary: an output file of exactly 1024 bytes after a zero exit is a failure.
\<close>

theorem zero_exit_needs_plausible_output_witness:
  "communicate (encoder_run (Exited 0 []) (Some 1024)) = Exited 0 []
   \<and> Spawn (build_ffmpeg_command default_compiler
              ''/tmp/video_processing/r1/frame_list.txt''
              ''/tmp/video_processing/r1/output.mp4'' 24
              \<lparr>crf = 18, preset = ''slow'', scale = Some ''1920:1080''\<rparr> ''mp4'')
            ''/tmp/video_processing/r1''
       \<in> set (snd (compile_video default_compiler (encoder_run (Exited 0 []) (Some 1024))
                      ''r1'' one_frame 24 ''high'' ''mp4'' 300))
   \<and> \<not> success (fst (compile_video default_compiler (encoder_run (Exited 0 []) (Some 1024))
                        ''r1'' one_frame 24 ''high'' ''mp4'' 300))
   \<and> error_message (fst (compile_video default_compiler (encoder_run (Exited 0 []) (Some 1024))
                            ''r1'' one_frame 24 ''high'' ''mp4'' 300))
       = Some ''FFmpeg completed but output file is invalid or too small''"
proof -
  let ?env = "encoder_run (Exited 0 []) (Some 1024)"
  let ?cmd = "build_ffmpeg_command default_compiler
                ''/tmp/video_processing/r1/frame_list.txt''
                ''/tmp/video_processing/r1/output.mp4'' 24
                \<lparr>crf = 18, preset = ''slow'', scale = Some ''1920:1080''\<rparr> ''mp4''"
  have c: "communicate ?env = Exited 0 []"
    by (simp add: encoder_run_def)
  have s: "Spawn ?cmd ''/tmp/video_processing/r1''
             \<in> set (snd (compile_video default_compiler ?env ''r1'' one_frame 24 ''high'' ''mp4'' 300))"
    by (simp add: Let_def compile_video_def compile_video_try_def create_frame_list_file_def
        float_reciprocal_24 get_quality_settings_eq path_simps example_defs)
  from zero_exit_needs_plausible_output[OF c s] c s show ?thesis
    by (simp add: path_simps example_defs)
qed

text \<open>
  C8. The four recognised tags resolve to their rows of the preset table, and every
  other tag string resolves to the medium row (compression factor 23, speed preset
  \<^verbatim>\<open>medium\<close>, scale \<^verbatim>\<open>1280:720\<close>) without an exception; \<^verbatim>\<open>compile_video\<close> then does
  exactly what it does for the tag \<^verbatim>\<open>medium\<close>. In every run in which the steps before
  the encoder succeed, the encoder is started with the command built from the row of the
  tag, which for an unrecognised tag is the medium row.
\<close>

theorem unrecognized_quality_is_medium:
  "get_quality_settings ''low'' = Inr \<lparr>crf = 28, preset = ''fast'', scale = Some ''720:480''\<rparr>
   \<and> get_quality_settings ''medium''
       = Inr \<lparr>crf = 23, preset = ''medium'', scale = Some ''1280:720''\<rparr>
   \<and> get_quality_settings ''high''
       = Inr \<lparr>crf = 18, preset = ''slow'', scale = Some ''1920:1080''\<rparr>
   \<and> get_quality_settings ''ultra''
       = Inr \<lparr>crf = 15, preset = ''veryslow'', scale = Some ''1920:1080''\<rparr>
   \<and> (q \<notin> {''low'', ''medium'', ''high'', ''ultra''} \<longrightarrow>
        get_quality_settings q = Inr \<lparr>crf = 23, preset = ''medium'', scale = Some ''1280:720''\<rparr>
        \<and> compile_video self env rid frames fps_arg q fmt t
            = compile_video self env rid frames fps_arg ''medium'' fmt t)
   \<and> (frames \<noteq> [] \<and> makedirs_error env = None \<and> open_error env = None
        \<and> float_reciprocal fps_arg = Inr d \<and> spawn_error env = None \<longrightarrow>
        Spawn (build_ffmpeg_command self
                 (path_join (path_join (temp_dir self) [rid]) [''frame_list.txt''])
                 (path_join (path_join (temp_dir self) [rid]) [''output.'' @ fmt])
                 fps_arg
                 (if q = ''low'' then \<lparr>crf = 28, preset = ''fast'', scale = Some ''720:480''\<rparr>
                  else if q = ''high''
                    then \<lparr>crf = 18, preset = ''slow'', scale = Some ''1920:1080''\<rparr>
                  else if q = ''ultra''
                    then \<lparr>crf = 15, preset = ''veryslow'', scale = Some ''1920:1080''\<rparr>
                  else \<lparr>crf = 23, preset = ''medium'', scale = Some ''1280:720''\<rparr>)
                 fmt)
              (path_join (temp_dir self) [rid])
          \<in> set (snd (compile_video self env rid frames fps_arg q fmt t)))"
proof -
  have rows:
    "get_quality_settings ''low'' = Inr \<lparr>crf = 28, preset = ''fast'', scale = Some ''720:480''\<rparr>"
    "get_quality_settings ''medium''
       = Inr \<lparr>crf = 23, preset = ''medium'', scale = Some ''1280:720''\<rparr>"
    "get_quality_settings ''high''
       = Inr \<lparr>crf = 18, preset = ''slow'', scale = Some ''1920:1080''\<rparr>"
    "get_quality_settings ''ultra''
       = Inr \<lparr>crf = 15, preset = ''veryslow'', scale = Some ''1920:1080''\<rparr>"
    by (simp_all add: get_quality_settings_eq)
  have fallback:
    "get_quality_settings q = Inr \<lparr>crf = 23, preset = ''medium'', scale = Some ''1280:720''\<rparr>
     \<and> compile_video self env rid frames fps_arg q fmt t
         = compile_video self env rid frames fps_arg ''medium'' fmt t"
    if "q \<notin> {''low'', ''medium'', ''high'', ''ultra''}"
    using unknown_tag_as_medium[OF that] compile_video_quality_cong[of q "''medium''"] rows(2)
    by simp
  have started:
    "Spawn (build_ffmpeg_command self
                 (path_join (path_join (temp_dir self) [rid]) [''frame_list.txt''])
                 (path_join (path_join (temp_dir self) [rid]) [''output.'' @ fmt])
                 fps_arg
                 (if q = ''low'' then \<lparr>crf = 28, preset = ''fast'', scale = Some ''720:480''\<rparr>
                  else if q = ''high''
                    then \<lparr>crf = 18, preset = ''slow'', scale = Some ''1920:1080''\<rparr>
                  else if q = ''ultra''
                    then \<lparr>crf = 15, preset = ''veryslow'', scale = Some ''1920:1080''\<rparr>
                  else \<lparr>crf = 23, preset = ''medium'', scale = Some ''1280:720''\<rparr>)
                 fmt)
              (path_join (temp_dir self) [rid])
          \<in> set (snd (compile_video self env rid frames fps_arg q fmt t))"
    if "frames \<noteq> []" "makedirs_error env = None" "open_error env = None"
      "float_reciprocal fps_arg = Inr d" "spawn_error env = None"
    by (rule compile_video_spawns[OF that get_quality_settings_eq])
  from rows fallback started show ?thesis by blast
qed

text \<open>
  The tag \<^verbatim>\<open>best\<close> is not in the table: the encoder is started with the arguments of
  the medium row.
\<close>

theorem unrecognized_quality_is_medium_witness:
  "''best'' \<notin> {''low'', ''medium'', ''high'', ''ultra''}
   \<and> one_frame \<noteq> []
   \<and> makedirs_error (encoder_run (Exited 0 []) (Some 4096)) = None
   \<and> open_error (encoder_run (Exited 0 []) (Some 4096)) = None
   \<and> float_reciprocal 24 = Inr (6004799503160661 / 2 ^ 57)
   \<and> spawn_error (encoder_run (Exited 0 []) (Some 4096)) = None
   \<and> get_quality_settings ''best''
       = Inr \<lparr>crf = 23, preset = ''medium'', scale = Some ''1280:720''\<rparr>
   \<and> compile_video default_compiler (encoder_run (Exited 0 []) (Some 4096))
         ''r1'' one_frame 24 ''best'' ''mp4'' 300
       = compile_video default_compiler (encoder_run (Exited 0 []) (Some 4096))
           ''r1'' one_frame 24 ''medium'' ''mp4'' 300
   \<and> Spawn [''ffmpeg'', ''-f'', ''concat'', ''-safe'', ''0'',
             ''-i'', ''/tmp/video_processing/r1/frame_list.txt'',
             ''-c:v'', ''libx264'', ''-preset'', ''medium'', ''-crf'', ''23'',
             ''-pix_fmt'', ''yuv420p'', ''-r'', ''24'', ''-movflags'', ''+faststart'', ''-y'',
             ''/tmp/video_processing/r1/output.mp4'', ''-vf'', ''scale=1280:720'']
            ''/tmp/video_processing/r1''
       \<in> set (snd (compile_video default_compiler (encoder_run (Exited 0 []) (Some 4096))
                      ''r1'' one_frame 24 ''best'' ''mp4'' 300))"
proof -
  have pre: "one_frame \<noteq> []"
    "makedirs_error (encoder_run (Exited 0 []) (Some 4096)) = None"
    "open_error (encoder_run (Exited 0 []) (Some 4096)) = None"
    "spawn_error (encoder_run (Exited 0 []) (Some 4096)) = None"
    by (simp_all add: example_defs)
  have tag: "''best'' \<notin> {''low'', ''medium'', ''high'', ''ultra''}"
    by simp
  note resolved = unrecognized_quality_is_medium[of "''best''" default_compiler
          "encoder_run (Exited 0 []) (Some 4096)" "''r1''" one_frame 24 "''mp4''" 300
          "6004799503160661 / 2 ^ 57"]
  from resolved tag
  have row: "get_quality_settings ''best''
               = Inr \<lparr>crf = 23, preset = ''medium'', scale = Some ''1280:720''\<rparr>"
    and same: "compile_video default_compiler (encoder_run (Exited 0 []) (Some 4096))
                 ''r1'' one_frame 24 ''best'' ''mp4'' 300
               = compile_video default_compiler (encoder_run (Exited 0 []) (Some 4096))
                   ''r1'' one_frame 24 ''medium'' ''mp4'' 300"
    by blast+
  from resolved pre float_reciprocal_24
  have "Spawn (build_ffmpeg_command default_compiler
                 (path_join (path_join (temp_dir default_compiler) [''r1'']) [''frame_list.txt''])
                 (path_join (path_join (temp_dir default_compiler) [''r1'']) [''output.'' @ ''mp4''])
                 24
                 (if ''best'' = ''low''
                    then \<lparr>crf = 28, preset = ''fast'', scale = Some ''720:480''\<rparr>
                  else if ''best'' = ''high''
                    then \<lparr>crf = 18, preset = ''slow'', scale = Some ''1920:1080''\<rparr>
                  else if ''best'' = ''ultra''
                    then \<lparr>crf = 15, preset = ''veryslow'', scale = Some ''1920:1080''\<rparr>
                  else \<lparr>crf = 23, preset = ''medium'', scale = Some ''1280:720''\<rparr>)
                 ''mp4'')
              (path_join (temp_dir default_compiler) [''r1''])
          \<in> set (snd (compile_video default_compiler (encoder_run (Exited 0 []) (Some 4096))
                         ''r1'' one_frame 24 ''best'' ''mp4'' 300))"
    by blast
  then have started:
    "Spawn [''ffmpeg'', ''-f'', ''concat'', ''-safe'', ''0'',
             ''-i'', ''/tmp/video_processing/r1/frame_list.txt'',
             ''-c:v'', ''libx264'', ''-preset'', ''medium'', ''-crf'', ''23'',
             ''-pix_fmt'', ''yuv420p'', ''-r'', ''24'', ''-movflags'', ''+faststart'', ''-y'',
             ''/tmp/video_processing/r1/output.mp4'', ''-vf'', ''scale=1280:720'']
            ''/tmp/video_processing/r1''
       \<in> set (snd (compile_video default_compiler (encoder_run (Exited 0 []) (Some 4096))
                      ''r1'' one_frame 24 ''best'' ''mp4'' 300))"
    by (simp add: build_ffmpeg_command_def str_int_23_24 path_simps default_compiler_def)
  from tag pre(1,2,3) float_reciprocal_24 pre(4) row same started
  show ?thesis
    by (intro conjI)
qed

text \<open>
  C9. \<^verbatim>\<open>compile_video\<close> with an empty frame list returns at once a failed result whose
  message says that no frames were provided, and has no effect: no working directory is
  made, no manifest is written and no encoder process is started.
\<close>

theorem no_frames_fails_without_effects:
  "compile_video self env rid [] fps_arg q fmt t =
     (\<lparr>result_request_id = rid, success = False, video_url = None,
       error_message = Some ''No frames provided for compilation'',
       compilation_time = None, completed_at = None\<rparr>, [])"
  by (simp add: compile_video_def compile_video_try_def CompilationResult_init_def)

text \<open>
  C10. For every quality tag the resolved preset has a scale, and the argument list built
  for it is twenty arguments, then the output path, then \<^verbatim>\<open>-vf\<close> and
  \<^verbatim>\<open>scale=<the preset's scale>\<close>: the output path stands third from the end, never last.
\<close>

theorem scale_arguments_follow_output_path:
  "\<exists>qs s pre. get_quality_settings q = Inr qs \<and> scale qs = Some s \<and> length pre = 20 \<and>
     build_ffmpeg_command self input_path output_path fps_arg qs fmt
       = pre @ [output_path, ''-vf'', ''scale='' @ s]"
  by (simp add: get_quality_settings_eq build_ffmpeg_command_def)








lemma str_int_300: "str_int 300 = ''300''"
  by (simp add: str_int_def str_nat.simps digit_char_def)

text \<open>
  C2. The claim fails on the timeout path: the result built in the handler of
  \<^verbatim>\<open>asyncio.TimeoutError\<close> (lines 137 to 141) is given no \<^verbatim>\<open>compilation_time\<close>, so
  the field is \<^verbatim>\<open>None\<close>, whereas a non-zero exit in the same world carries the elapsed
  five seconds.
\<close>

theorem timeout_result_has_no_compilation_time:
  "compile_video default_compiler (encoder_run TimedOut None) ''r1'' one_frame 24 ''high'' ''mp4'' 300
     = (\<lparr>result_request_id = ''r1'', success = False, video_url = None,
         error_message = Some ''Video compilation timed out after 300 seconds'',
         compilation_time = None, completed_at = None\<rparr>,
        [Makedirs ''/tmp/video_processing/r1'',
         WriteManifest ''/tmp/video_processing/r1/frame_list.txt''
           [WriteHeader,
            WriteFileLine ''/tmp/video_processing/r1/frames/frame_000001.jpg'',
            WriteDuration (6004799503160661 / 2 ^ 57),
            WriteFileLine ''/tmp/video_processing/r1/frames/frame_000001.jpg''],
         Spawn (build_ffmpeg_command default_compiler
                  ''/tmp/video_processing/r1/frame_list.txt''
                  ''/tmp/video_processing/r1/output.mp4'' 24
                  \<lparr>crf = 18, preset = ''slow'', scale = Some ''1920:1080''\<rparr> ''mp4'')
               ''/tmp/video_processing/r1'',
         Kill])
   \<and> compilation_time (fst (compile_video default_compiler (encoder_run (Exited 1 []) None)
                               ''r1'' one_frame 24 ''high'' ''mp4'' 300)) = Some 5"
  by (simp add: compile_video_def compile_video_try_def Let_def create_frame_list_file_def
      float_reciprocal_24 write_last_frame_def get_quality_settings_eq
      CompilationResult_init_def str_int_300 path_simps example_defs)

section \<open>Properties of the frame retriever\<close>

lemma run_tasks_foldl:
  "foldl (\<lambda>futures i. futures(i \<mapsto> task i)) m order k
     = (if k \<in> set order then Some (task k) else m k)"
  by (induction order arbitrary: m) auto

lemma run_tasks_completed:
  "run_tasks task order k = (if k \<in> set order then Some (task k) else None)"
  by (simp add: run_tasks_def run_tasks_foldl)

lemma those_map_Some: "those (map Some xs) = Some xs"
  by (induction xs) auto

lemma gather_all_done:
  assumes "set children \<subseteq> set order"
  shows "gather task children order = Some (map task children)"
proof -
  have "run_tasks task order k = Some (task k)" if "k \<in> set children" for k
    using that assms by (auto simp: run_tasks_completed)
  then have eq: "map (run_tasks task order) children = map Some (map task children)"
    by (induction children) auto
  show ?thesis
    by (simp only: gather_def eq those_map_Some)
qed

lemma filter_successful_acc:
  "filter_successful rs acc = acc @ concat (map frames_of rs)"
  by (induction rs acc rule: filter_successful.induct) auto

lemma successful_tasks:
  "concat (map frames_of (map (download_single_frame df rid dir) ns))
     = map (\<lambda>n. \<lparr>frame_number = n, frame_url = rid @ ''/frame_'' @ format_06d n @ ''.jpg'',
                  local_path = Some (path_join dir [''frame_'' @ format_06d n @ ''.jpg''])\<rparr>)
           (filter (\<lambda>n. df n = Fetched) ns)"
  by (induction ns) (auto simp: download_single_frame_def Let_def split: fetch_outcome.splits)

lemma upto_filter_sorted: "sorted (filter P [1..n::int])"
  by (simp add: sorted_wrt_filter)

lemma download_all_frames_done:
  assumes "set [1..n] \<subseteq> set order"
  shows "download_all_frames df order rid n temp =
     Some (map (\<lambda>k. \<lparr>frame_number = k, frame_url = rid @ ''/frame_'' @ format_06d k @ ''.jpg'',
                  local_path = Some (path_join (path_join temp [rid, ''frames''])
                                       [''frame_'' @ format_06d k @ ''.jpg''])\<rparr>)
           (filter (\<lambda>k. df k = Fetched) [1..n]))"
proof -
  define mk where "mk = (\<lambda>k. \<lparr>frame_number = k, frame_url = rid @ ''/frame_'' @ format_06d k @ ''.jpg'',
                  local_path = Some (path_join (path_join temp [rid, ''frames''])
                                       [''frame_'' @ format_06d k @ ''.jpg''])\<rparr>)"
  define ok where "ok = filter (\<lambda>k. df k = Fetched) [1..n]"
  have nums: "map frame_number (map mk ok) = ok"
    by (simp add: mk_def comp_def)
  have "sorted ok"
    unfolding ok_def by (rule upto_filter_sorted)
  then have "sorted (map frame_number (map mk ok))"
    by (simp only: nums)
  then have srt: "sort_key frame_number (map mk ok) = map mk ok"
    by (rule sort_key_id_if_sorted)
  have res: "filter_successful
               (map (download_single_frame df rid (path_join temp [rid, ''frames''])) [1..n]) []
             = map mk ok"
    by (simp only: filter_successful_acc successful_tasks append_Nil mk_def ok_def)
  have "download_all_frames df order rid n temp = Some (sort_key frame_number (map mk ok))"
    by (simp only: download_all_frames_def Let_def gather_all_done[OF assms] option.case res)
  then have "download_all_frames df order rid n temp = Some (map mk ok)"
    by (simp only: srt)
  then show ?thesis
    unfolding mk_def ok_def .
qed

text \<open>
  C6. Whenever every fetch task of the batch completes, in whatever order,
  \<^verbatim>\<open>download_all_frames\<close> returns: the frames are exactly those of the frame numbers in
  1..N whose fetch succeeded, each once, in increasing \<^verbatim>\<open>frame_number\<close>, and there are
  at most N of them. A fetch that fails or raises only leaves its frame out.
\<close>

theorem download_all_frames_sorted_and_exact:
  assumes "set [1..n] \<subseteq> set order"
  shows "\<exists>frames. download_all_frames df order rid n temp = Some frames
     \<and> frames = map (\<lambda>k. \<lparr>frame_number = k,
                                frame_url = rid @ ''/frame_'' @ format_06d k @ ''.jpg'',
                                local_path = Some (path_join (path_join temp [rid, ''frames''])
                                                     [''frame_'' @ format_06d k @ ''.jpg''])\<rparr>)
                     (filter (\<lambda>k. df k = Fetched) [1..n])
     \<and> sorted (map frame_number frames)
     \<and> distinct (map frame_number frames)
     \<and> set (map frame_number frames) = {k. 1 \<le> k \<and> k \<le> n \<and> df k = Fetched}
     \<and> int (length frames) \<le> max 0 n"
proof -
  let ?mk = "\<lambda>k. \<lparr>frame_number = k, frame_url = rid @ ''/frame_'' @ format_06d k @ ''.jpg'',
                  local_path = Some (path_join (path_join temp [rid, ''frames''])
                                       [''frame_'' @ format_06d k @ ''.jpg''])\<rparr>"
  let ?ok = "filter (\<lambda>k. df k = Fetched) [1..n]"
  let ?frames = "map ?mk ?ok"
  have ret: "download_all_frames df order rid n temp = Some ?frames"
    by (rule download_all_frames_done[OF assms])
  have nums: "map frame_number ?frames = ?ok"
    by (simp add: comp_def)
  have srt: "sorted (map frame_number ?frames)"
    unfolding nums by (simp add: sorted_wrt_filter)
  have dst: "distinct (map frame_number ?frames)"
    unfolding nums by simp
  have mem: "set (map frame_number ?frames) = {k. 1 \<le> k \<and> k \<le> n \<and> df k = Fetched}"
    unfolding nums by auto
  have "length ?ok \<le> length [1..n]"
    by (rule length_filter_le)
  then have len: "int (length ?frames) \<le> max 0 n"
    by simp
  from ret srt dst mem len show ?thesis
    by blast
qed

text \<open>The two example batches.\<close>

lemma upto_1_3: "[1..3::int] = [1, 2, 3]"
  by (simp add: upto.simps)

lemma upto_1_5: "[1..5::int] = [1, 2, 3, 4, 5]"
  by (simp add: upto.simps)

lemma replicate_zeros: "replicate 5 CHR ''0'' = ''00000''"
  by code_simp

lemma format_06d_digits:
  "format_06d 1 = ''000001''" "format_06d 2 = ''000002''" "format_06d 3 = ''000003''"
  "format_06d 4 = ''000004''" "format_06d 5 = ''000005''"
  by (simp_all add: format_06d_def str_nat.simps digit_char_def replicate_zeros)

lemma str_int_digits: "str_int 4 = ''4''" "str_int 5 = ''5''"
  by (simp_all add: str_int_def str_nat.simps digit_char_def)

lemma download_r2:
  "download_all_frames all_but_third [3, 1, 5, 2, 4] ''r2'' 5 ''/tmp/video_processing''
     = Some (map (\<lambda>k. \<lparr>frame_number = k,
                         frame_url = ''r2/frame_'' @ format_06d k @ ''.jpg'',
                         local_path = Some (''/tmp/video_processing/r2/frames/frame_''
                                            @ format_06d k @ ''.jpg'')\<rparr>) [1, 2, 4, 5])"
proof -
  have "set [1..5] \<subseteq> set [3, 1, 5, 2, 4::int]"
    by (simp add: upto_1_5)
  from download_all_frames_done[OF this, of all_but_third "''r2''" "''/tmp/video_processing''"]
  show ?thesis
    by (simp add: upto_1_5 all_but_third_def path_simps)
qed

theorem download_all_frames_sorted_and_exact_witness:
  "set [1..5] \<subseteq> set [3, 1, 5, 2, 4::int]
   \<and> (\<exists>frames. download_all_frames all_but_third [3, 1, 5, 2, 4] ''r2'' 5
                    ''/tmp/video_processing'' = Some frames
         \<and> map frame_number frames = [1, 2, 4, 5]
         \<and> sorted (map frame_number frames)
         \<and> int (length frames) \<le> 5)"
proof -
  have complete: "set [1..5] \<subseteq> set [3, 1, 5, 2, 4::int]"
    by (simp add: upto_1_5)
  from download_all_frames_sorted_and_exact[OF complete, of all_but_third "''r2''"
         "''/tmp/video_processing''"]
  obtain frames where
    ret: "download_all_frames all_but_third [3, 1, 5, 2, 4] ''r2'' 5 ''/tmp/video_processing''
            = Some frames"
    and eq: "frames = map (\<lambda>k. \<lparr>frame_number = k,
                                frame_url = ''r2'' @ ''/frame_'' @ format_06d k @ ''.jpg'',
                                local_path =
                                  Some (path_join (path_join ''/tmp/video_processing''
                                                     [''r2'', ''frames''])
                                          [''frame_'' @ format_06d k @ ''.jpg''])\<rparr>)
                     (filter (\<lambda>k. all_but_third k = Fetched) [1..5])"
    and srt: "sorted (map frame_number frames)"
    and len: "int (length frames) \<le> max 0 5"
    by blast
  from eq have "map frame_number frames = [1, 2, 4, 5]"
    by (simp add: upto_1_5 all_but_third_def)
  with complete ret srt len show ?thesis
    by simp
qed

section \<open>Properties of the job orchestrator and the queue gateway\<close>

lemma compile_events_internal:
  assumes "e \<in> set (snd (compile_video self env rid frames fps_arg q fmt t))"
  shows "\<not> is_upload e \<and> \<not> is_status_update e"
proof -
  from assms have "e \<in> set (fst (compile_video_try self env rid frames fps_arg q fmt t))"
    by (simp add: snd_compile_video)
  then show ?thesis
    by (auto simp: compile_video_try_def Let_def create_frame_list_file_def
        split: if_splits option.splits sum.splits communicate_outcome.splits)
qed

lemma filter_compile_events:
  "filter is_upload (snd (compile_video self env rid frames fps_arg q fmt t)) = []"
  "filter is_status_update (snd (compile_video self env rid frames fps_arg q fmt t)) = []"
  using compile_events_internal by (auto simp: filter_empty_conv)

lemma job_completed:
  assumes "download_all_frames (download_frame env) (completion_order env) (request_id job)
             (total_frames job) (settings_temp_dir self) = Some frames"
    and "int (length frames) = total_frames job"
    and "compile_video (video_compiler self) (encoder env) (request_id job) frames (fps job)
           (quality job) (output_format job) (settings_max_compilation_time self) = (result, cevs)"
    and "success result" and "video_url result = Some url" and "url \<noteq> []"
    and "fput_error env = None"
  shows "process_video_compilation_job self env job =
     Some (True,
           [UpdateVideoStatus (request_id job) ''processing'' None None None] @ cevs
           @ [FPutObject (videos_bucket (storage_service self))
                (request_id job @ ''/compiled_video.mp4'') url ''video/mp4'',
              UpdateVideoStatus (request_id job) ''completed''
                (Some (request_id job @ ''/compiled_video.mp4'')) None (compilation_time result)]
           @ cleanup self (request_id job),
           (stats self)\<lparr>completed_jobs := completed_jobs (stats self) + 1\<rparr>)"
  using assms
  by (simp add: process_video_compilation_job_def Let_def upload_video_def truthy_def)

lemma download_r1:
  "download_all_frames (\<lambda>k. Fetched) [2, 3, 1] ''r1'' 3 ''/tmp/video_processing''
     = Some (map (\<lambda>k. \<lparr>frame_number = k,
                         frame_url = ''r1/frame_'' @ format_06d k @ ''.jpg'',
                         local_path = Some (''/tmp/video_processing/r1/frames/frame_''
                                            @ format_06d k @ ''.jpg'')\<rparr>) [1, 2, 3])"
proof -
  have "set [1..3] \<subseteq> set [2, 3, 1::int]"
    by (simp add: upto_1_3)
  from download_all_frames_done[OF this, of "\<lambda>k. Fetched" "''r1''" "''/tmp/video_processing''"]
  show ?thesis
    by (simp add: upto_1_3 path_simps)
qed

lemma compile_webm:
  "fst (compile_video default_compiler (encoder_run (Exited 0 []) (Some 4096)) ''r1''
     (map (\<lambda>k. \<lparr>frame_number = k,
                         frame_url = ''r1/frame_'' @ format_06d k @ ''.jpg'',
                         local_path = Some (''/tmp/video_processing/r1/frames/frame_''
                                            @ format_06d k @ ''.jpg'')\<rparr>) [1, 2, 3])
     24 ''high'' ''webm'' 300)
   = CompilationResult_init ''r1'' True (Some ''/tmp/video_processing/r1/output.webm'') None
       (Some 5)"
proof -
  let ?env = "encoder_run (Exited 0 []) (Some 4096)"
  have env: "makedirs_error ?env = None" "spawn_error ?env = None" "open_error ?env = None"
    "communicate ?env = Exited 0 []"
    by (simp_all add: encoder_run_def)
  have frames: "map (\<lambda>k. \<lparr>frame_number = k,
                         frame_url = ''r1/frame_'' @ format_06d k @ ''.jpg'',
                         local_path = Some (''/tmp/video_processing/r1/frames/frame_''
                                            @ format_06d k @ ''.jpg'')\<rparr>) [1, 2, 3::int] \<noteq> []"
    by simp
  from compile_video_exited[where self = default_compiler and rid = "''r1''"
         and fmt = "''webm''" and t = 300 and q = "''high''",
         OF frames env(1,2) create_frame_list_file_written[OF float_reciprocal_24 env(3)]
         get_quality_settings_eq env(4)]
  show ?thesis
    by (simp add: example_defs path_simps)
qed

lemma job_r2_run:
  "process_video_compilation_job default_worker env_r2 job_r2 =
     Some (False,
           [UpdateVideoStatus ''r2'' ''processing'' None None None,
            UpdateVideoStatus ''r2'' ''failed'' None (Some ''Downloaded 4/5 frames'') None,
            CleanupWorkDirectory ''r2'',
            CleanupFrames ''r2'' ''/tmp/video_processing/r2/frames''],
           \<lparr>active_jobs = 0, completed_jobs = 0, failed_jobs = 1\<rparr>)"
  by (simp add: process_video_compilation_job_def Let_def env_r2_def job_r2_def
      default_worker_def download_r2 str_int_digits cleanup_def path_simps)

lemma decode_r2:
  "decode_job body_r2 =
     Inr \<lparr>given_request_id = JStr ''r2'', given_total_frames = JInt 5,
          given_output_format = JStr ''mp4'', given_fps = JInt 30,
          given_quality = JStr ''medium''\<rparr>"
  by (simp add: body_r2_def decode_job_def VideoCompilationJob_init_def job_fields_def
      dict_get_def)


text \<open>
  C1. The claim fails for a body that is valid JSON but not a job: the constructor's
  \<^verbatim>\<open>TypeError\<close> is not a \<^verbatim>\<open>JSONDecodeError\<close>, so the second handler (lines 108 to
  110) negatively acknowledges the delivery with requeue. A body that is not JSON is
  rejected without requeue, as the claim says.
\<close>

theorem schema_failure_is_requeued:
  "process_message (Some (\<lambda>job. Returned True)) 7 (Json (JObj [(''total_frames'', JInt 5)]))
     = [BasicNack 7 True]
   \<and> process_message (Some (\<lambda>job. Returned True)) 7 NotJson = [BasicReject 7 False]"
  by (simp add: process_message_def decode_job_def VideoCompilationJob_init_def job_fields_def)


text \<open>
  C3. The claim fails for a job whose \<^verbatim>\<open>output_format\<close> is not \<^verbatim>\<open>mp4\<close>: the encoder
  writes \<^verbatim>\<open>output.webm\<close>, and \<^verbatim>\<open>upload_video\<close> stores that file under the fixed key
  \<^verbatim>\<open>r1/compiled_video.mp4\<close> with the content type \<^verbatim>\<open>video/mp4\<close>, which is also the
  \<^verbatim>\<open>video_url\<close> reported with the completed status.
\<close>

theorem webm_job_is_stored_as_mp4:
  "map_option (\<lambda>(b, evs, st). (b, filter is_upload evs, filter is_status_update evs))
     (process_video_compilation_job default_worker env_all_good job_webm)
   = Some (True,
           [FPutObject ''compiled-videos'' ''r1/compiled_video.mp4''
              ''/tmp/video_processing/r1/output.webm'' ''video/mp4''],
           [UpdateVideoStatus ''r1'' ''processing'' None None None,
            UpdateVideoStatus ''r1'' ''completed'' (Some ''r1/compiled_video.mp4'') None
              (Some 5)])"
proof -
  define frames where "frames = map (\<lambda>k. \<lparr>frame_number = k,
                         frame_url = ''r1/frame_'' @ format_06d k @ ''.jpg'',
                         local_path = Some (''/tmp/video_processing/r1/frames/frame_''
                                            @ format_06d k @ ''.jpg'')\<rparr>) [1, 2, 3]"
  define c where "c = compile_video default_compiler (encoder_run (Exited 0 []) (Some 4096))
                        ''r1'' frames 24 ''high'' ''webm'' 300"
  define result where "result = CompilationResult_init ''r1'' True
                         (Some ''/tmp/video_processing/r1/output.webm'') None (Some 5)"
  have "fst c = result"
    unfolding c_def frames_def result_def by (rule compile_webm)
  then have c: "c = (result, snd c)"
    by (simp add: prod_eq_iff)
  have dl: "download_all_frames (download_frame env_all_good) (completion_order env_all_good)
              (request_id job_webm) (total_frames job_webm) (settings_temp_dir default_worker)
            = Some frames"
    unfolding frames_def using download_r1
    by (simp add: env_all_good_def job_webm_def default_worker_def)
  have len: "int (length frames) = total_frames job_webm"
    by (simp add: frames_def job_webm_def)
  have cv: "compile_video (video_compiler default_worker) (encoder env_all_good)
              (request_id job_webm) frames (fps job_webm) (quality job_webm)
              (output_format job_webm) (settings_max_compilation_time default_worker)
            = (result, snd c)"
    using c by (simp add: c_def env_all_good_def job_webm_def default_worker_def)
  have ok: "success result" "video_url result = Some ''/tmp/video_processing/r1/output.webm''"
    "compilation_time result = Some 5"
    by (simp_all add: result_def CompilationResult_init_def)
  have up: "fput_error env_all_good = None"
    by (simp add: env_all_good_def)
  have internal: "filter is_upload (snd c) = []" "filter is_status_update (snd c) = []"
    unfolding c_def by (rule filter_compile_events)+
  have "process_video_compilation_job default_worker env_all_good job_webm =
     Some (True,
           [UpdateVideoStatus (request_id job_webm) ''processing'' None None None] @ snd c
           @ [FPutObject (videos_bucket (storage_service default_worker))
                (request_id job_webm @ ''/compiled_video.mp4'')
                ''/tmp/video_processing/r1/output.webm'' ''video/mp4'',
              UpdateVideoStatus (request_id job_webm) ''completed''
                (Some (request_id job_webm @ ''/compiled_video.mp4'')) None
                (compilation_time result)]
           @ cleanup default_worker (request_id job_webm),
           (stats default_worker)\<lparr>completed_jobs := completed_jobs (stats default_worker) + 1\<rparr>)"
    by (rule job_completed[OF dl len cv ok(1,2) _ up]) simp
  then show ?thesis
    by (simp add: internal ok(3) cleanup_def job_webm_def default_worker_def)
qed


text \<open>
  C4. When the retrieval returns fewer frames than \<^verbatim>\<open>total_frames\<close>, the orchestrator
  reports \<^verbatim>\<open>processing\<close> and then \<^verbatim>\<open>failed\<close> with the message
  \<^verbatim>\<open>Downloaded <obtained>/<expected> frames\<close>, cleans up, counts a failed job and returns
  \<^verbatim>\<open>False\<close>; the gateway, whose handler returned that value for the decoded job, then
  negatively acknowledges the delivery with requeue.
\<close>

theorem retrieval_shortfall_fails_and_requeues:
  assumes "download_all_frames (download_frame env) (completion_order env) (request_id job)
             (total_frames job) (settings_temp_dir self) = Some frames"
    and "int (length frames) < total_frames job"
    and "decode_job body = Inr inst"
    and "job_of_instance inst = Some job"
    and "handler_returns handler inst (process_video_compilation_job self env job)"
  shows "process_video_compilation_job self env job =
           Some (False,
                 [UpdateVideoStatus (request_id job) ''processing'' None None None,
                  UpdateVideoStatus (request_id job) ''failed'' None
                    (Some (''Downloaded '' @ str_int (int (length frames)) @ ''/''
                           @ str_int (total_frames job) @ '' frames'')) None]
                 @ cleanup self (request_id job),
                 (stats self)\<lparr>failed_jobs := failed_jobs (stats self) + 1\<rparr>)
         \<and> process_message (Some handler) tag body = [BasicNack tag True]"
proof -
  have run: "process_video_compilation_job self env job =
           Some (False,
                 [UpdateVideoStatus (request_id job) ''processing'' None None None,
                  UpdateVideoStatus (request_id job) ''failed'' None
                    (Some (''Downloaded '' @ str_int (int (length frames)) @ ''/''
                           @ str_int (total_frames job) @ '' frames'')) None]
                 @ cleanup self (request_id job),
                 (stats self)\<lparr>failed_jobs := failed_jobs (stats self) + 1\<rparr>)"
    using assms(1,2) by (simp add: process_video_compilation_job_def Let_def)
  with assms(5) have "handler inst = Returned False"
    by (simp add: handler_returns_def)
  with assms(3) have "process_message (Some handler) tag body = [BasicNack tag True]"
    by (simp add: process_message_def)
  with run show ?thesis by blast
qed



text \<open>The job \<^verbatim>\<open>r2\<close>: four of five frames, the message holds \<^verbatim>\<open>4/5\<close>.\<close>

theorem retrieval_shortfall_fails_and_requeues_witness:
  "download_all_frames (download_frame env_r2) (completion_order env_r2) (request_id job_r2)
       (total_frames job_r2) (settings_temp_dir default_worker)
     = Some (map (\<lambda>k. \<lparr>frame_number = k,
                         frame_url = ''r2/frame_'' @ format_06d k @ ''.jpg'',
                         local_path = Some (''/tmp/video_processing/r2/frames/frame_''
                                            @ format_06d k @ ''.jpg'')\<rparr>) [1, 2, 4, 5])
   \<and> int (length [1, 2, 4, 5::int]) < total_frames job_r2
   \<and> decode_job body_r2 =
       Inr \<lparr>given_request_id = JStr ''r2'', given_total_frames = JInt 5,
            given_output_format = JStr ''mp4'', given_fps = JInt 30,
            given_quality = JStr ''medium''\<rparr>
   \<and> job_of_instance \<lparr>given_request_id = JStr ''r2'', given_total_frames = JInt 5,
            given_output_format = JStr ''mp4'', given_fps = JInt 30,
            given_quality = JStr ''medium''\<rparr> = Some job_r2
   \<and> handler_returns (\<lambda>inst. Returned False)
         \<lparr>given_request_id = JStr ''r2'', given_total_frames = JInt 5,
          given_output_format = JStr ''mp4'', given_fps = JInt 30,
          given_quality = JStr ''medium''\<rparr>
         (process_video_compilation_job default_worker env_r2 job_r2)
   \<and> process_video_compilation_job default_worker env_r2 job_r2 =
       Some (False,
             [UpdateVideoStatus ''r2'' ''processing'' None None None,
              UpdateVideoStatus ''r2'' ''failed'' None (Some ''Downloaded 4/5 frames'') None,
              CleanupWorkDirectory ''r2'',
              CleanupFrames ''r2'' ''/tmp/video_processing/r2/frames''],
             \<lparr>active_jobs = 0, completed_jobs = 0, failed_jobs = 1\<rparr>)
   \<and> process_message (Some (\<lambda>inst. Returned False)) 7 body_r2 = [BasicNack 7 True]"
proof -
  let ?frames = "map (\<lambda>k. \<lparr>frame_number = k,
                         frame_url = ''r2/frame_'' @ format_06d k @ ''.jpg'',
                         local_path = Some (''/tmp/video_processing/r2/frames/frame_''
                                            @ format_06d k @ ''.jpg'')\<rparr>) [1, 2, 4, 5]"
  let ?inst = "\<lparr>given_request_id = JStr ''r2'', given_total_frames = JInt 5,
            given_output_format = JStr ''mp4'', given_fps = JInt 30,
            given_quality = JStr ''medium''\<rparr>"
  have dl: "download_all_frames (download_frame env_r2) (completion_order env_r2)
              (request_id job_r2) (total_frames job_r2) (settings_temp_dir default_worker)
            = Some ?frames"
    using download_r2 by (simp add: env_r2_def job_r2_def default_worker_def)
  have short: "int (length ?frames) < total_frames job_r2"
    by (simp add: job_r2_def)
  have typed: "job_of_instance ?inst = Some job_r2"
    by (simp add: job_of_instance_def job_r2_def)
  have ret: "handler_returns (\<lambda>inst. Returned False) ?inst
               (process_video_compilation_job default_worker env_r2 job_r2)"
    by (simp add: handler_returns_def job_r2_run)
  from retrieval_shortfall_fails_and_requeues[OF dl short decode_r2 typed ret, of 7]
    dl short decode_r2 typed ret
  show ?thesis
    by (simp add: job_r2_def default_worker_def str_int_digits cleanup_def path_simps)
qed



end
